theory Spec2Isabelle
  imports Main "HOL-Library.Char_ord" "HOL-Library.List_Lexorder" "HOL-Library.Sublist"
begin

section \<open>Report formatter: \<^verbatim>\<open>formatTimeRecords\<close> (src/utils/formatUtils.ts)\<close>

text \<open>
  Strings are lists of characters; the default \<^verbatim>\<open>Array.prototype.sort\<close> of the source
  compares strings code unit by code unit, which is the lexicographic order on
  \<^typ>\<open>string\<close> given by the character codes.

  \<^verbatim>\<open>TimeRecord\<close> and \<^verbatim>\<open>ProjectMap\<close> follow the interfaces of types.ts. The optional
  \<^verbatim>\<open>pid\<close> is \<open>None\<close> when it is absent or null.
\<close>

record TimeRecord =
  tr_id :: int
  description :: string
  tr_start :: string
  tr_end :: string
  duration :: int
  tags :: "string list"
  pid :: "int option"
  project :: "string option"

type_synonym ProjectMap = "int \<rightharpoonup> string"

text \<open>
  \<^verbatim>\<open>record.pid && projectMap[record.pid] ? projectMap[record.pid] : 'No Project'\<close>:
  a number is truthy when it is not zero, a string when it is not empty.
\<close>

definition projectName :: "ProjectMap \<Rightarrow> TimeRecord \<Rightarrow> string" where
  "projectName projectMap r =
     (case pid r of
        None \<Rightarrow> ''No Project''
      | Some p \<Rightarrow>
          if p = 0 then ''No Project''
          else (case projectMap p of
                  None \<Rightarrow> ''No Project''
                | Some n \<Rightarrow> if n = [] then ''No Project'' else n))"

text \<open>\<^verbatim>\<open>String.prototype.trim\<close> on ASCII text: tab, line feed, vertical tab, form feed,
  carriage return and space are stripped from both ends.\<close>

definition is_js_whitespace :: "char \<Rightarrow> bool" where
  "is_js_whitespace c =
     (c = CHR 0x09 \<or> c = CHR 0x0A \<or> c = CHR 0x0B \<or> c = CHR 0x0C \<or> c = CHR 0x0D \<or> c = CHR '' '')"

definition trim :: "string \<Rightarrow> string" where
  "trim s = rev (dropWhile is_js_whitespace (rev (dropWhile is_js_whitespace s)))"

text \<open>\<^verbatim>\<open>record.description && record.description.trim() !== ''\<close>\<close>

definition hasDescription :: "TimeRecord \<Rightarrow> bool" where
  "hasDescription r = (description r \<noteq> [] \<and> trim (description r) \<noteq> [])"

text \<open>
  \<^verbatim>\<open>projectGroups\<close> is a dictionary from project name to a \<^verbatim>\<open>Set\<close> of descriptions. Both
  keep insertion order in the source, so the dictionary is an association list and the
  set a duplicate-free list; \<open>set_add\<close> is \<^verbatim>\<open>Set.prototype.add\<close>.
\<close>

type_synonym ProjectGroups = "(string \<times> string list) list"

definition set_add :: "string \<Rightarrow> string list \<Rightarrow> string list" where
  "set_add x xs = (if x \<in> set xs then xs else xs @ [x])"

definition lookupGroup :: "ProjectGroups \<Rightarrow> string \<Rightarrow> string list" where
  "lookupGroup projectGroups name =
     (case map_of projectGroups name of None \<Rightarrow> [] | Some tasks \<Rightarrow> tasks)"

text \<open>The body of \<^verbatim>\<open>timeRecords.forEach(record => ...)\<close>.\<close>

definition addRecord :: "ProjectMap \<Rightarrow> ProjectGroups \<Rightarrow> TimeRecord \<Rightarrow> ProjectGroups" where
  "addRecord projectMap projectGroups r =
     (let name = projectName projectMap r;
          created = (if map_of projectGroups name = None
                     then projectGroups @ [(name, [])] else projectGroups)
      in if hasDescription r
         then map (\<lambda>(k, tasks). if k = name then (k, set_add (description r) tasks) else (k, tasks))
                created
         else created)"

definition groupRecords :: "ProjectMap \<Rightarrow> TimeRecord list \<Rightarrow> ProjectGroups" where
  "groupRecords projectMap timeRecords = foldl (addRecord projectMap) [] timeRecords"

text \<open>The body of \<^verbatim>\<open>for (const projectName of sortedProjects)\<close>, given the sorted tasks.\<close>

definition renderProject :: "string \<times> string list \<Rightarrow> string" where
  "renderProject g =
     ''<li>'' @ fst g @
     (if snd g \<noteq> []
      then ''<ul>'' @ concat (map (\<lambda>task. ''<li>'' @ task @ ''</li>'') (snd g)) @ ''</ul>''
      else []) @
     ''</li>''"

text \<open>The projects in the order the loop renders them, each with its sorted tasks.\<close>

definition sortedGroups :: "ProjectMap \<Rightarrow> TimeRecord list \<Rightarrow> ProjectGroups" where
  "sortedGroups projectMap timeRecords =
     (let projectGroups = groupRecords projectMap timeRecords;
          sortedProjects = sort (map fst projectGroups)
      in map (\<lambda>name. (name, sort (lookupGroup projectGroups name))) sortedProjects)"

definition formatTimeRecords :: "TimeRecord list \<Rightarrow> ProjectMap \<Rightarrow> string" where
  "formatTimeRecords timeRecords projectMap =
     (if timeRecords = [] then ''No time records found for the last week.''
      else ''<ul>'' @ concat (map renderProject (sortedGroups projectMap timeRecords)) @ ''</ul>'')"

text \<open>A record with only the fields the formatter reads filled in.\<close>

definition mkRecord :: "string \<Rightarrow> int option \<Rightarrow> TimeRecord" where
  "mkRecord d p =
     \<lparr>tr_id = 0, description = d, tr_start = [], tr_end = [], duration = 0, tags = [],
      pid = p, project = None\<rparr>"

section \<open>Strings and regular expressions of the runtime\<close>

definition is_upper :: "char \<Rightarrow> bool" where
  "is_upper c = (CHR ''A'' \<le> c \<and> c \<le> CHR ''Z'')"

definition is_lower :: "char \<Rightarrow> bool" where
  "is_lower c = (CHR ''a'' \<le> c \<and> c \<le> CHR ''z'')"

definition is_letter :: "char \<Rightarrow> bool" where
  "is_letter c = (is_upper c \<or> is_lower c)"

definition is_digit :: "char \<Rightarrow> bool" where
  "is_digit c = (CHR ''0'' \<le> c \<and> c \<le> CHR ''9'')"

definition digit_val :: "char \<Rightarrow> int" where
  "digit_val c = of_char c - 48"

definition canonicalize :: "char \<Rightarrow> nat" where
  "canonicalize c = (if is_lower c then of_char c - 32 else of_char c)"

definition ci_eq :: "char \<Rightarrow> char \<Rightarrow> bool" where
  "ci_eq a b = (canonicalize a = canonicalize b)"

fun prefix_ci :: "string \<Rightarrow> string \<Rightarrow> bool" where
  "prefix_ci [] s = True"
| "prefix_ci (p # ps) [] = False"
| "prefix_ci (p # ps) (c # cs) = (ci_eq p c \<and> prefix_ci ps cs)"

fun find_pos :: "(string \<Rightarrow> bool) \<Rightarrow> string \<Rightarrow> nat option" where
  "find_pos P [] = (if P [] then Some 0 else None)"
| "find_pos P (c # cs) = (if P (c # cs) then Some 0 else map_option Suc (find_pos P cs))"

definition indexOf :: "string \<Rightarrow> string \<Rightarrow> int" where
  "indexOf s needle = (case find_pos (prefix needle) s of None \<Rightarrow> - 1 | Some i \<Rightarrow> int i)"

definition substring :: "string \<Rightarrow> int \<Rightarrow> int \<Rightarrow> string" where
  "substring s a b =
     (let a' = nat (max 0 a); b' = nat (max 0 b)
      in take (max a' b' - min a' b') (drop (min a' b') s))"

definition substring_from :: "string \<Rightarrow> int \<Rightarrow> string" where
  "substring_from s a = drop (nat (max 0 a)) s"

subsection \<open>RegExp\<close>

datatype rx = Zero | Eps | Chr char | Dot | Seq rx rx | Alt rx rx | Star rx

fun nullable :: "rx \<Rightarrow> bool" where
  "nullable Zero = False"
| "nullable Eps = True"
| "nullable (Chr c) = False"
| "nullable Dot = False"
| "nullable (Seq r s) = (nullable r \<and> nullable s)"
| "nullable (Alt r s) = (nullable r \<or> nullable s)"
| "nullable (Star r) = True"

fun seq :: "rx \<Rightarrow> rx \<Rightarrow> rx" where
  "seq Zero s = Zero"
| "seq Eps s = s"
| "seq r s = (if s = Zero then Zero else Seq r s)"

fun alt :: "rx \<Rightarrow> rx \<Rightarrow> rx" where
  "alt Zero s = s"
| "alt r s = (if s = Zero \<or> s = r then r else Alt r s)"

fun deriv :: "char \<Rightarrow> rx \<Rightarrow> rx" where
  "deriv c Zero = Zero"
| "deriv c Eps = Zero"
| "deriv c (Chr d) = (if c = d then Eps else Zero)"
| "deriv c Dot = Eps"
| "deriv c (Seq r s) =
     (if nullable r then alt (seq (deriv c r) s) (deriv c s) else seq (deriv c r) s)"
| "deriv c (Alt r s) = alt (deriv c r) (deriv c s)"
| "deriv c (Star r) = seq (deriv c r) (Star r)"

definition matches :: "rx \<Rightarrow> string \<Rightarrow> bool" where
  "matches r s = nullable (foldl (\<lambda>r c. deriv c r) r s)"

definition rx_test :: "rx \<Rightarrow> string \<Rightarrow> bool" where
  "rx_test r s = matches (Seq (Star Dot) (Seq r (Star Dot))) s"

datatype exn = Error string | OutsideModel

datatype pmode = Opened | NoAtom | Atom | Quantified | Lazy

record frame =
  alts :: "rx list"
  atoms :: "rx list"

definition seq_of :: "rx list \<Rightarrow> rx" where
  "seq_of rev_atoms = foldl (\<lambda>acc a. Seq a acc) Eps rev_atoms"

fun alt_of :: "rx list \<Rightarrow> rx" where
  "alt_of [] = Zero"
| "alt_of [r] = r"
| "alt_of (r # rs) = Alt (alt_of rs) r"

definition close_frame :: "frame \<Rightarrow> rx" where
  "close_frame f = alt_of (seq_of (atoms f) # alts f)"

definition push_atom :: "rx \<Rightarrow> frame \<Rightarrow> frame" where
  "push_atom a f = f\<lparr>atoms := a # atoms f\<rparr>"

definition quantify :: "(rx \<Rightarrow> rx) \<Rightarrow> frame \<Rightarrow> frame" where
  "quantify q f = (case atoms f of [] \<Rightarrow> f | a # as \<Rightarrow> f\<lparr>atoms := q a # as\<rparr>)"

definition nothing_to_repeat :: exn where
  "nothing_to_repeat = Error ''Invalid regular expression: Nothing to repeat''"

fun parse_step :: "frame list \<times> pmode \<Rightarrow> char \<Rightarrow> exn + frame list \<times> pmode" where
  "parse_step ([], m) c = Inl OutsideModel"
| "parse_step (f # fs, m) c =
    (if c = CHR ''('' then Inr (\<lparr>alts = [], atoms = []\<rparr> # f # fs, Opened)
     else if c = CHR '')'' then
       (case fs of
          [] \<Rightarrow> Inl (Error ''Invalid regular expression: Unmatched )'')
        | g # gs \<Rightarrow> Inr (push_atom (close_frame f) g # gs, Atom))
     else if c = CHR ''|'' then
       Inr (\<lparr>alts = seq_of (atoms f) # alts f, atoms = []\<rparr> # fs, NoAtom)
     else if c = CHR ''*'' then
       (if m = Atom then Inr (quantify Star f # fs, Quantified) else Inl nothing_to_repeat)
     else if c = CHR ''+'' then
       (if m = Atom then Inr (quantify (\<lambda>a. Seq a (Star a)) f # fs, Quantified)
        else Inl nothing_to_repeat)
     else if c = CHR ''?'' then
       (if m = Atom then Inr (quantify (\<lambda>a. Alt a Eps) f # fs, Quantified)
        else if m = Quantified then Inr (f # fs, Lazy)
        else if m = Opened then Inl OutsideModel
        else Inl nothing_to_repeat)
     else if c = CHR ''.'' then Inr (push_atom Dot f # fs, Atom)
     else if c \<in> set (CHR 0x5C # ''^$[]{}'') then Inl OutsideModel
     else Inr (push_atom (Chr c) f # fs, Atom))"

fun parse_from :: "exn + frame list \<times> pmode \<Rightarrow> string \<Rightarrow> exn + frame list \<times> pmode" where
  "parse_from st [] = st"
| "parse_from (Inl e) (c # cs) = Inl e"
| "parse_from (Inr st) (c # cs) = parse_from (parse_step st c) cs"

definition RegExp_s :: "string \<Rightarrow> exn + rx" where
  "RegExp_s pattern =
     (case parse_from (Inr ([\<lparr>alts = [], atoms = []\<rparr>], NoAtom)) pattern of
        Inl e \<Rightarrow> Inl e
      | Inr ([f], m) \<Rightarrow> Inr (close_frame f)
      | Inr (fs, m) \<Rightarrow> Inl (Error ''Invalid regular expression: Unterminated group''))"


subsection \<open>The language of a pattern\<close>







section \<open>Document merge engine\<close>

abbreviation (input) nl :: string where "nl \<equiv> [CHR 0x0A]"

definition h1 :: "string \<Rightarrow> string" where "h1 month = ''<h1>'' @ month @ ''</h1>''"
definition h2 :: "string \<Rightarrow> string" where "h2 weekEndDate = ''<h2>w/e '' @ weekEndDate @ ''</h2>''"
definition h3 :: "string \<Rightarrow> string" where "h3 displayName = ''<h3>'' @ displayName @ ''</h3>''"

definition userHeadingPattern :: "string \<Rightarrow> string \<Rightarrow> exn + rx" where
  "userHeadingPattern weekEndDate displayName =
     RegExp_s (''<h2>w/e '' @ weekEndDate @ ''</h2>.*?<h3>'' @ displayName @ ''</h3>'')"

definition test_i :: "string \<Rightarrow> string \<Rightarrow> bool" where
  "test_i pattern s = (find_pos (prefix_ci pattern) s \<noteq> None)"

definition createFullSection :: "string \<Rightarrow> string \<Rightarrow> string \<Rightarrow> string \<Rightarrow> string" where
  "createFullSection month weekEndDate displayName formattedContent =
     nl @ h1 month @ nl @ h2 weekEndDate @ nl @ h3 displayName @ nl @ formattedContent @ nl @ nl"

definition createWeekSection :: "string \<Rightarrow> string \<Rightarrow> string \<Rightarrow> string" where
  "createWeekSection weekEndDate displayName formattedContent =
     nl @ h2 weekEndDate @ nl @ h3 displayName @ nl @ formattedContent @ nl @ nl"

definition createUserSection :: "string \<Rightarrow> string \<Rightarrow> string" where
  "createUserSection displayName formattedContent =
     nl @ h3 displayName @ nl @ formattedContent @ nl @ nl"

definition monthNames :: "string list" where
  "monthNames = [''January'', ''February'', ''March'', ''April'', ''May'', ''June'',
                 ''July'', ''August'', ''September'', ''October'', ''November'', ''December'']"

fun index_in :: "string list \<Rightarrow> string \<Rightarrow> int" where
  "index_in [] x = - 1"
| "index_in (y # ys) x = (if x = y then 0 else (let i = index_in ys x in if i < 0 then - 1 else i + 1))"

subsection \<open>extractMonthSections\<close>

definition month_heading :: "string \<Rightarrow> string option" where
  "month_heading s =
     (if prefix ''<h1>'' s
      then (let name = takeWhile is_letter (drop 4 s)
            in if name \<noteq> [] \<and> prefix ''</h1>'' (drop (4 + length name) s) then Some name else None)
      else None)"

definition month_match :: "string \<Rightarrow> (string \<times> nat) option" where
  "month_match s =
     (case month_heading s of
        None \<Rightarrow> None
      | Some name \<Rightarrow>
          (let hl = 4 + length name + 5;
               body = (case find_pos (prefix ''<h1>'') (drop hl s) of
                         None \<Rightarrow> length s - hl | Some j \<Rightarrow> j)
           in Some (name, hl + body)))"

lemma month_match_pos: "month_match s = Some (name, n) \<Longrightarrow> 0 < n"
  by (auto simp: month_match_def Let_def split: option.splits)

function month_matches :: "string \<Rightarrow> (string \<times> string) list" where
  "month_matches s =
     (if s = [] then []
      else (case month_match s of
              None \<Rightarrow> month_matches (tl s)
            | Some (name, n) \<Rightarrow> (name, take n s) # month_matches (drop n s)))"
  by pat_completeness auto
termination
  by (relation "measure length") (auto dest: month_match_pos)

declare month_matches.simps [simp del]

type_synonym sections = "(string \<times> string) list"

definition map_set :: "string \<Rightarrow> string \<Rightarrow> sections \<Rightarrow> sections" where
  "map_set k v m =
     (if k \<in> fst ` set m then map (\<lambda>(k', v'). if k' = k then (k', v) else (k', v')) m
      else m @ [(k, v)])"

definition extractMonthSections :: "string \<Rightarrow> sections" where
  "extractMonthSections content =
     foldl (\<lambda>monthSections (monthName, monthContent).
              if monthName \<in> set monthNames then map_set monthName monthContent monthSections
              else monthSections)
       [] (month_matches content)"


definition map_get :: "sections \<Rightarrow> string \<Rightarrow> string" where
  "map_get m k = (case map_of m k of None \<Rightarrow> [] | Some v \<Rightarrow> v)"

subsection \<open>regenerateOrderedContent\<close>

definition regenerateOrderedContent :: "sections \<Rightarrow> string" where
  "regenerateOrderedContent sections =
     (let months = sort_key (\<lambda>m. - index_in monthNames m) (map fst sections)
      in concat (map (map_get sections) months))"

subsection \<open>Dates\<close>

record jsdate =
  d_year :: int
  d_month :: int
  d_day :: int

definition is_leap :: "int \<Rightarrow> bool" where
  "is_leap y = ((y mod 4 = 0 \<and> y mod 100 \<noteq> 0) \<or> y mod 400 = 0)"

definition days_in_month :: "int \<Rightarrow> int \<Rightarrow> int" where
  "days_in_month y m =
     (if m = 1 then (if is_leap y then 29 else 28)
      else if m = 3 \<or> m = 5 \<or> m = 8 \<or> m = 10 then 30 else 31)"

definition days_before_year :: "int \<Rightarrow> int" where
  "days_before_year y = 365 * y + (y - 1) div 4 - (y - 1) div 100 + (y - 1) div 400"

definition days_before_month :: "int \<Rightarrow> int \<Rightarrow> int" where
  "days_before_month y m = sum_list (map (days_in_month y) [0..m - 1])"

definition setMonth :: "jsdate \<Rightarrow> int \<Rightarrow> jsdate" where
  "setMonth d m =
     (let y = d_year d + m div 12; mn = m mod 12
      in if d_day d \<le> days_in_month y mn then \<lparr>d_year = y, d_month = mn, d_day = d_day d\<rparr>
         else (if mn = 11 then \<lparr>d_year = y + 1, d_month = 0, d_day = d_day d - days_in_month y mn\<rparr>
               else \<lparr>d_year = y, d_month = mn + 1, d_day = d_day d - days_in_month y mn\<rparr>))"

definition setDate_time :: "jsdate \<Rightarrow> int \<Rightarrow> int" where
  "setDate_time d n = days_before_year (d_year d) + days_before_month (d_year d) (d_month d) + n"

definition decimal :: "string \<Rightarrow> int" where
  "decimal s = foldl (\<lambda>n c. 10 * n + digit_val c) 0 s"

definition js_Number :: "string \<Rightarrow> int option" where
  "js_Number s = (if list_all is_digit s then Some (decimal s) else None)"

fun split_char :: "char \<Rightarrow> string \<Rightarrow> string list" where
  "split_char sep [] = [[]]"
| "split_char sep (c # cs) =
     (if c = sep then [] # split_char sep cs
      else (case split_char sep cs of [] \<Rightarrow> [[c]] | p # ps \<Rightarrow> (c # p) # ps))"

definition newDate_time :: "jsdate \<Rightarrow> string \<Rightarrow> int option" where
  "newDate_time today weekEndDate =
     (case split_char CHR ''/'' weekEndDate of
        newDay # newMonth # _ \<Rightarrow>
          (case (js_Number newDay, js_Number newMonth) of
             (Some d, Some m) \<Rightarrow> Some (setDate_time (setMonth today (m - 1)) d)
           | _ \<Rightarrow> None)
      | _ \<Rightarrow> None)"

subsection \<open>addContentToMonthSections\<close>

definition week_heading :: "string \<Rightarrow> (int \<times> int) option" where
  "week_heading s =
     (if prefix ''<h2>w/e '' s then
        (case drop 8 s of
           a # b # sl # c # d # rest \<Rightarrow>
             if is_digit a \<and> is_digit b \<and> sl = CHR ''/'' \<and> is_digit c \<and> is_digit d \<and>
                prefix ''</h2>'' rest
             then Some (decimal [a, b], decimal [c, d]) else None
         | _ \<Rightarrow> None)
      else None)"

function week_matches :: "nat \<Rightarrow> string \<Rightarrow> (int \<times> int \<times> nat) list" where
  "week_matches off s =
     (if s = [] then []
      else (case week_heading s of
              None \<Rightarrow> week_matches (off + 1) (tl s)
            | Some (day, monthNum) \<Rightarrow> (day, monthNum, off) # week_matches (off + 18) (drop 18 s)))"
  by pat_completeness auto
termination
  by (relation "measure (\<lambda>(off, s). length s)") auto

declare week_matches.simps [simp del]

definition heading_tag :: "string \<Rightarrow> string \<Rightarrow> bool" where
  "heading_tag levels s =
     (case s of
        a # b # c # rest \<Rightarrow>
          a = CHR ''<'' \<and> ci_eq b CHR ''h'' \<and> c \<in> set levels \<and> CHR ''>'' \<in> set rest
      | _ \<Rightarrow> False)"

lemma find_pos_Some: "find_pos P s = Some i \<Longrightarrow> i \<le> length s \<and> P (drop i s)"
  by (induction s arbitrary: i) (auto split: if_splits)

lemma prefix_ci_nonempty: "prefix_ci p s \<Longrightarrow> p \<noteq> [] \<Longrightarrow> s \<noteq> []"
  by (cases p; cases s) auto

function split_i :: "string \<Rightarrow> string \<Rightarrow> string list" where
  "split_i pattern s =
     (if pattern = [] then map (\<lambda>c. [c]) s
      else (case find_pos (prefix_ci pattern) s of
              None \<Rightarrow> [s]
            | Some i \<Rightarrow> take i s # split_i pattern (drop (i + length pattern) s)))"
  by pat_completeness auto
termination
proof (relation "measure (\<lambda>(p, s). length s)", goal_cases)
  case 1
  show ?case by simp
next
  case (2 pattern s i)
  from find_pos_Some [OF 2(2)] have "prefix_ci pattern (drop i s)" by simp
  with 2(1) have "drop i s \<noteq> []" using prefix_ci_nonempty by blast
  then show ?case using 2(1) by (cases pattern) auto
qed

declare split_i.simps [simp del]

definition weekDates :: "jsdate \<Rightarrow> string \<Rightarrow> (int \<times> nat) list" where
  "weekDates today monthContent =
     map (\<lambda>(day, monthNum, index). (setDate_time (setMonth today (monthNum - 1)) day, index))
       (week_matches 0 monthContent)"

definition insertPosition :: "jsdate \<Rightarrow> string \<Rightarrow> string \<Rightarrow> int" where
  "insertPosition today monthContent weekEndDate =
     (let weekHeadings = sort_key (\<lambda>(date, index). - date) (weekDates today monthContent);
          newDate = newDate_time today weekEndDate;
          h1EndIndex = indexOf monthContent ''</h1>'' + 5
      in case find (\<lambda>(date, index). case newDate of None \<Rightarrow> False | Some n \<Rightarrow> date < n) weekHeadings of
           Some (date, index) \<Rightarrow> int index
         | None \<Rightarrow>
             (if weekHeadings = [] then h1EndIndex
              else (let index = snd (last weekHeadings)
                    in case find_pos (heading_tag ''12'') (substring_from monthContent (int index + 20)) of
                         Some j \<Rightarrow> int index + 20 + int j
                       | None \<Rightarrow> int (length monthContent))))"

definition addContentToMonthSections ::
  "jsdate \<Rightarrow> sections \<Rightarrow> string \<Rightarrow> string \<Rightarrow> string \<Rightarrow> string \<Rightarrow> exn + sections" where
  "addContentToMonthSections today sections month weekEndDate displayName formattedContent =
     (if month \<in> fst ` set sections then
        (let monthContent = map_get sections month;
             weekExists = test_i (h2 weekEndDate) monthContent
         in case userHeadingPattern weekEndDate displayName of
              Inl e \<Rightarrow> Inl e
            | Inr userPattern \<Rightarrow>
                if rx_test userPattern monthContent then Inr sections
                else if weekExists then
                  (case split_i (h2 weekEndDate) monthContent of
                     part0 # afterWeekHeading # _ \<Rightarrow>
                       (let userSection = createUserSection displayName formattedContent;
                            updatedMonthContent =
                              (case find_pos (heading_tag ''123'') afterWeekHeading of
                                 Some insertPoint \<Rightarrow>
                                   part0 @ h2 weekEndDate @ take insertPoint afterWeekHeading @
                                   userSection @ drop insertPoint afterWeekHeading
                               | None \<Rightarrow> part0 @ h2 weekEndDate @ afterWeekHeading @ userSection)
                        in Inr (map_set month updatedMonthContent sections))
                   | _ \<Rightarrow> Inr sections)
                else
                  (let weekSection = createWeekSection weekEndDate displayName formattedContent;
                       pos = insertPosition today monthContent weekEndDate;
                       updatedMonthContent =
                         substring monthContent 0 pos @ weekSection @ substring_from monthContent pos
                   in Inr (map_set month updatedMonthContent sections)))
      else Inr (map_set month (createFullSection month weekEndDate displayName formattedContent) sections))"

subsection \<open>prepareUpdatedContent and hasWeekForUser\<close>

definition prepareUpdatedContent ::
  "jsdate \<Rightarrow> string \<Rightarrow> string \<Rightarrow> string \<Rightarrow> string \<times> string \<Rightarrow> exn + string \<times> string" where
  "prepareUpdatedContent today displayName currentContent formattedContent weekInfo =
     (let month = fst weekInfo; weekEndDate = snd weekInfo
      in case userHeadingPattern weekEndDate displayName of
           Inl e \<Rightarrow> Inl e
         | Inr userPattern \<Rightarrow>
             if rx_test userPattern currentContent
             then Inr (currentContent, ''Report already exists for week ending '' @ weekEndDate @ ''.'')
             else
               (case addContentToMonthSections today (extractMonthSections currentContent)
                       month weekEndDate displayName formattedContent of
                  Inl e \<Rightarrow> Inl e
                | Inr updatedSections \<Rightarrow>
                    Inr (regenerateOrderedContent updatedSections,
                         if rx_test userPattern currentContent
                         then ''Report already exists for week ending '' @ weekEndDate @ ''.''
                         else if test_i (h2 weekEndDate) currentContent
                         then ''Added report to existing week ending '' @ weekEndDate @ ''.''
                         else if test_i (h1 month) currentContent
                         then ''Added new week ending '' @ weekEndDate @ ''.''
                         else ''Added new month '' @ [CHR 0x27] @ month @ [CHR 0x27] @ ''.'')))"

definition hasWeekForUser :: "string \<Rightarrow> string \<Rightarrow> string \<Rightarrow> exn + bool" where
  "hasWeekForUser displayName content weekEndDate =
     (case userHeadingPattern weekEndDate displayName of
        Inl e \<Rightarrow> Inl e
      | Inr userPattern \<Rightarrow> Inr (rx_test userPattern content))"


section \<open>Services and the backfill run\<close>

record JsDate =
  getTime :: int
  localeMonth :: string
  localeDayMonth :: string

record DateRange =
  startDate :: JsDate
  endDate :: JsDate

record PageSnapshot =
  page_content :: string
  page_title :: string
  page_version :: int

record 'w env =
  toggl_time_entries :: "int \<Rightarrow> int \<Rightarrow> 'w \<Rightarrow> (string + TimeRecord list) \<times> 'w"
  toggl_projects :: "string \<Rightarrow> 'w \<Rightarrow> (string + (int \<times> string) list) \<times> 'w"
  toggl_me :: "'w \<Rightarrow> (string + unit) \<times> 'w"
  confluence_get :: "'w \<Rightarrow> (string + PageSnapshot) \<times> 'w"
  confluence_put :: "string \<Rightarrow> string \<Rightarrow> int \<Rightarrow> 'w \<Rightarrow> (string + int) \<times> 'w"
  date_parse :: "string \<Rightarrow> int option"
  clock :: "'w \<Rightarrow> jsdate"
  delay :: "int \<Rightarrow> 'w \<Rightarrow> 'w"
  getAllWeeksInYear :: "'w \<Rightarrow> DateRange list"
  getLastWeekDates :: "'w \<Rightarrow> DateRange"

record TogglService =
  apiToken :: string
  workspaceId :: string
  earliestAllowedDate :: "int option"






definition fetchProjectsAlternative :: "'w env \<Rightarrow> 'w \<Rightarrow> (exn + ProjectMap) \<times> 'w" where
  "fetchProjectsAlternative e w =
     (case toggl_me e w of
        (Inr userData, w1) \<Rightarrow> (Inr Map.empty, w1)
      | (Inl errorMessage, w1) \<Rightarrow> (Inr Map.empty, w1))"

definition fetchProjects :: "'w env \<Rightarrow> TogglService \<Rightarrow> 'w \<Rightarrow> (exn + ProjectMap) \<times> 'w" where
  "fetchProjects e svc w =
     (if workspaceId svc = [] then (Inr Map.empty, w)
      else (case toggl_projects e (workspaceId svc) w of
              (Inr projects, w1) \<Rightarrow>
                (Inr (foldl (\<lambda>projectMap (i, n). projectMap(i \<mapsto> n)) Map.empty projects), w1)
            | (Inl errorMessage, w1) \<Rightarrow> fetchProjectsAlternative e w1))"

























text \<open>An environment in which every remote call fails.\<close>

definition failing_env :: "unit env" where
  "failing_env =
     \<lparr>toggl_time_entries = (\<lambda>s e w. (Inl ''offline'', w)),
      toggl_projects = (\<lambda>i w. (Inl ''Request failed with status code 403'', w)),
      toggl_me = (\<lambda>w. (Inl ''offline'', w)),
      confluence_get = (\<lambda>w. (Inl ''offline'', w)),
      confluence_put = (\<lambda>t c v w. (Inl ''offline'', w)),
      date_parse = (\<lambda>s. None),
      clock = (\<lambda>w. \<lparr>d_year = 2025, d_month = 2, d_day = 14\<rparr>),
      delay = (\<lambda>n w. w),
      getAllWeeksInYear = (\<lambda>w. []),
      getLastWeekDates = (\<lambda>w. \<lparr>startDate = \<lparr>getTime = 0, localeMonth = ''January'', localeDayMonth = ''01/01''\<rparr>,
          endDate = \<lparr>getTime = 0, localeMonth = ''January'', localeDayMonth = ''05/01''\<rparr>\<rparr>)\<rparr>"


text \<open>A date on which the examples below are run.\<close>

definition example_today :: jsdate where
  "example_today = \<lparr>d_year = 2025, d_month = 2, d_day = 31\<rparr>"














section \<open>Properties of patterns\<close>









subsection \<open>Patterns without metacharacters\<close>










section \<open>Properties of the merge engine\<close>



















lemma find_pos_None_iff: "find_pos P s = None \<Longrightarrow> \<not> P s"
  by (cases s) (auto split: if_splits)












text \<open>The definitions unfolded when the model is run on a concrete document.\<close>

lemmas eval_defs = prepareUpdatedContent_def hasWeekForUser_def userHeadingPattern_def RegExp_s_def
  push_atom_def close_frame_def seq_of_def quantify_def rx_test_def matches_def
  extractMonthSections_def month_matches.simps month_match_def month_heading_def
  addContentToMonthSections_def map_set_def map_get_def createFullSection_def
  createWeekSection_def createUserSection_def h1_def h2_def h3_def
  regenerateOrderedContent_def monthNames_def test_i_def split_i.simps heading_tag_def
  ci_eq_def canonicalize_def is_lower_def is_upper_def is_letter_def is_digit_def
  insertPosition_def weekDates_def week_matches.simps week_heading_def newDate_time_def
  js_Number_def decimal_def digit_val_def setMonth_def setDate_time_def days_in_month_def
  days_before_year_def days_before_month_def is_leap_def indexOf_def substring_def
  substring_from_def Let_def example_today_def


section \<open>Properties of the services and of the backfill loop\<close>






















section \<open>Properties of the formatter\<close>

subsection \<open>The groups built by the loop\<close>

lemma map_fst_addRecord:
  "map fst (addRecord pm g r) =
     (if projectName pm r \<in> fst ` set g then map fst g else map fst g @ [projectName pm r])"
  by (auto simp: addRecord_def Let_def map_of_eq_None_iff comp_def case_prod_unfold image_iff
           intro!: map_idI)

lemma fst_set_addRecord:
  "fst ` set (addRecord pm g r) = insert (projectName pm r) (fst ` set g)"
  using arg_cong [OF map_fst_addRecord [of pm g r], of set] by (auto split: if_splits)




lemma foldl_addRecord_keys:
  "fst ` set (foldl (addRecord pm) g rs) = fst ` set g \<union> projectName pm ` set rs"
  by (induction rs arbitrary: g) (simp_all add: fst_set_addRecord)

lemma foldl_addRecord_distinct:
  "distinct (map fst g) \<Longrightarrow> distinct (map fst (foldl (addRecord pm) g rs))"
  by (induction rs arbitrary: g) (auto simp: map_fst_addRecord)



lemma groupRecords_keys: "fst ` set (groupRecords pm rs) = projectName pm ` set rs"
  by (simp add: groupRecords_def foldl_addRecord_keys)

lemma groupRecords_distinct: "distinct (map fst (groupRecords pm rs))"
  by (simp add: groupRecords_def foldl_addRecord_distinct)








lemma distinct_singleton_set:
  assumes d: "distinct xs" and s: "set xs = {x}"
  shows "xs = [x]"
proof (cases xs)
  case Nil
  with s show ?thesis by simp
next
  case (Cons y ys)
  from s Cons have y: "y = x" by auto
  from d Cons y have "x \<notin> set ys" by simp
  moreover from s Cons have "set ys \<subseteq> {x}" by auto
  ultimately have "ys = []" by (cases ys) auto
  with Cons y show ?thesis by simp
qed

lemma projectName_empty: "projectName Map.empty r = ''No Project''"
  by (simp add: projectName_def split: option.splits)

lemma sortedGroups_empty_map:
  assumes "timeRecords \<noteq> []"
  shows "sortedGroups Map.empty timeRecords =
     [(''No Project'', sort (lookupGroup (groupRecords Map.empty timeRecords) ''No Project''))]"
proof -
  have "projectName Map.empty ` set timeRecords = {''No Project''}"
    using assms by (cases timeRecords) (simp_all add: projectName_empty image_constant_conv)
  then have "set (map fst (groupRecords Map.empty timeRecords)) = {''No Project''}"
    by (simp add: groupRecords_keys)
  then have "map fst (groupRecords Map.empty timeRecords) = [''No Project'']"
    by (rule distinct_singleton_set [OF groupRecords_distinct])
  then show ?thesis by (simp add: sortedGroups_def Let_def)
qed


section \<open>Claims about the formatter\<close>





text \<open>
  C9. \<open>fetchProjects\<close> always resolves to a project map and never to an error: the empty
  map when the workspace id is missing and when the projects request fails (the alternative
  lookup resolves to the empty map whether its own request fails or not). With the empty
  map every record resolves to \<open>''No Project''\<close>, so the formatted report of a non-empty
  list of records is the single list item of that group.
\<close>

theorem C9_fetchProjects_never_raises:
  "(\<exists>projectMap w'. fetchProjects e svc w = (Inr projectMap, w')) \<and>
   (workspaceId svc = [] \<longrightarrow> fetchProjects e svc w = (Inr Map.empty, w)) \<and>
   (workspaceId svc \<noteq> [] \<and> (\<exists>msg w1. toggl_projects e (workspaceId svc) w = (Inl msg, w1)) \<longrightarrow>
      fst (fetchProjects e svc w) = Inr Map.empty) \<and>
   (\<exists>w'. fetchProjectsAlternative e w = (Inr Map.empty, w')) \<and>
   (\<forall>r. projectName Map.empty r = ''No Project'') \<and>
   (timeRecords \<noteq> [] \<longrightarrow>
      (\<exists>tasks. formatTimeRecords timeRecords Map.empty =
         ''<ul>'' @ renderProject (''No Project'', tasks) @ ''</ul>''))"
proof -
  have alt: "\<And>w0. \<exists>w'. fetchProjectsAlternative e w0 = (Inr Map.empty, w')"
    by (auto simp: fetchProjectsAlternative_def split: prod.splits sum.splits)
  have 1: "\<exists>projectMap w'. fetchProjects e svc w = (Inr projectMap, w')"
  proof (cases "workspaceId svc = []")
    case True
    then show ?thesis by (simp add: fetchProjects_def)
  next
    case False
    obtain r w1 where t: "toggl_projects e (workspaceId svc) w = (r, w1)"
      by (cases "toggl_projects e (workspaceId svc) w")
    show ?thesis
    proof (cases r)
      case (Inl msg)
      obtain w' where "fetchProjectsAlternative e w1 = (Inr Map.empty, w')" using alt by blast
      then show ?thesis using False t Inl by (simp add: fetchProjects_def)
    next
      case (Inr projects)
      then show ?thesis using False t by (simp add: fetchProjects_def)
    qed
  qed
  have 3: "workspaceId svc \<noteq> [] \<and> (\<exists>msg w1. toggl_projects e (workspaceId svc) w = (Inl msg, w1)) \<longrightarrow>
      fst (fetchProjects e svc w) = Inr Map.empty"
  proof
    assume a: "workspaceId svc \<noteq> [] \<and> (\<exists>msg w1. toggl_projects e (workspaceId svc) w = (Inl msg, w1))"
    then obtain msg w1 where m: "toggl_projects e (workspaceId svc) w = (Inl msg, w1)" by blast
    obtain w' where "fetchProjectsAlternative e w1 = (Inr Map.empty, w')" using alt by blast
    then show "fst (fetchProjects e svc w) = Inr Map.empty"
      using a m by (simp add: fetchProjects_def)
  qed
  have 6: "timeRecords \<noteq> [] \<longrightarrow>
      (\<exists>tasks. formatTimeRecords timeRecords Map.empty =
         ''<ul>'' @ renderProject (''No Project'', tasks) @ ''</ul>'')"
    by (auto simp: formatTimeRecords_def sortedGroups_empty_map)
  have 2: "workspaceId svc = [] \<longrightarrow> fetchProjects e svc w = (Inr Map.empty, w)"
    by (simp add: fetchProjects_def)
  have 5: "\<forall>r. projectName Map.empty r = ''No Project''"
    by (simp add: projectName_empty)
  show ?thesis
    apply (intro conjI)
         apply (rule 1)
        apply (rule 2)
       apply (rule 3)
      apply (rule alt)
     apply (rule 5)
    apply (rule 6)
    done
qed

theorem C9_witness:
  "workspaceId \<lparr>apiToken = ''t'', workspaceId = ''42'', earliestAllowedDate = None\<rparr> \<noteq> [] \<and>
   toggl_projects failing_env ''42'' () = (Inl ''Request failed with status code 403'', ()) \<and>
   fst (fetchProjects failing_env
          \<lparr>apiToken = ''t'', workspaceId = ''42'', earliestAllowedDate = None\<rparr> ()) = Inr Map.empty \<and>
   [mkRecord ''A'' (Some 1)] \<noteq> [] \<and>
   formatTimeRecords [mkRecord ''A'' (Some 1)] Map.empty = ''<ul><li>No Project<ul><li>A</li></ul></li></ul>''"
proof -
  have f: "formatTimeRecords [mkRecord ''A'' (Some 1)] Map.empty = ''<ul><li>No Project<ul><li>A</li></ul></li></ul>''"
    by (simp add: formatTimeRecords_def sortedGroups_def groupRecords_def addRecord_def Let_def
      projectName_def mkRecord_def hasDescription_def trim_def is_js_whitespace_def set_add_def
      lookupGroup_def renderProject_def)
  have t: "toggl_projects failing_env ''42'' () = (Inl ''Request failed with status code 403'', ())"
    by (simp add: failing_env_def)
  have w: "workspaceId \<lparr>apiToken = ''t'', workspaceId = ''42'', earliestAllowedDate = None\<rparr> \<noteq> []"
    by simp
  have "fst (fetchProjects failing_env
          \<lparr>apiToken = ''t'', workspaceId = ''42'', earliestAllowedDate = None\<rparr> ()) = Inr Map.empty"
    using C9_fetchProjects_never_raises
      [of failing_env "\<lparr>apiToken = ''t'', workspaceId = ''42'', earliestAllowedDate = None\<rparr>" "()"
          "[mkRecord ''A'' (Some 1)]"] w t
    by (simp del: fst_conv)
  with w t f show ?thesis by simp
qed


section \<open>Claims about the merge engine\<close>







text \<open>
  C2. On a page whose week ``w/e 21/03'' holds only Bob's report and whose later section
  ``w/e 14/03'' holds Alice's, \<open>hasWeekForUser\<close> for Alice and 21/03 answers true: the
  pattern lets any text, other week headings included, stand between the week heading and
  the user heading.
\<close>

theorem C2_hasWeekForUser_reaches_into_later_weeks:
  "hasWeekForUser ''Alice''
     (''<h1>March</h1>'' @ nl @ ''<h2>w/e 21/03</h2>'' @ nl @ ''<h3>Bob</h3>'' @ nl @ ''<ul></ul>'' @
      nl @ nl @ ''<h2>w/e 14/03</h2>'' @ nl @ ''<h3>Alice</h3>'' @ nl @ ''<ul></ul>'' @ nl @ nl)
     ''21/03'' = Inr True"
  by (simp add: eval_defs)




section \<open>Claims about the backfill run\<close>

















end
